theory Spec2Isabelle
  imports Main
begin

section \<open>The runtime values the worker handles\<close>

text \<open>
  The repository holds one worker in two variants: \<^verbatim>\<open>cdn-worker.js\<close> takes the
  repository owner from the binding \<^verbatim>\<open>GITHUB_OWNER\<close>, the second file takes it from the
  request path. Both define the helpers \<^verbatim>\<open>getToken\<close>, \<^verbatim>\<open>handleGitHubError\<close>,
  \<^verbatim>\<open>applyHeaders\<close> and \<^verbatim>\<open>handleOptions\<close> with the same text, so each helper is embedded
  once.

  A \<^verbatim>\<open>Headers\<close> object is a finite map from header names to values. Names are
  case-insensitive: the object stores them in lower case, and \<^verbatim>\<open>get\<close> and \<^verbatim>\<open>set\<close>
  lower-case the name they are given.
\<close>

type_synonym Headers = "string \<rightharpoonup> string"

definition lower_char :: "char \<Rightarrow> char" where
  "lower_char c =
     (case map_of (zip ''ABCDEFGHIJKLMNOPQRSTUVWXYZ'' ''abcdefghijklmnopqrstuvwxyz'') c of
        Some d \<Rightarrow> d
      | None \<Rightarrow> c)"

definition lower :: "string \<Rightarrow> string" where
  "lower s = map lower_char s"

definition Headers_get :: "Headers \<Rightarrow> string \<Rightarrow> string option" where
  "Headers_get h name = h (lower name)"

definition Headers_set :: "Headers \<Rightarrow> string \<Rightarrow> string \<Rightarrow> Headers" where
  "Headers_set h name v = h(lower name \<mapsto> v)"

text \<open>
  \<^verbatim>\<open>new URL(request.url)\<close>: the parts of the parsed address the worker reads. The query
  is the ordered list of name/value pairs; \<^verbatim>\<open>searchParams.has\<close> looks for the name,
  \<^verbatim>\<open>searchParams.get\<close> returns the value of its first occurrence (\<^verbatim>\<open>null\<close> is \<open>None\<close>).
\<close>

record URL =
  origin :: string
  pathname :: string
  searchParams :: "(string \<times> string) list"

definition searchParams_has :: "(string \<times> string) list \<Rightarrow> string \<Rightarrow> bool" where
  "searchParams_has q name = (name \<in> set (map fst q))"

definition searchParams_get :: "(string \<times> string) list \<Rightarrow> string \<Rightarrow> string option" where
  "searchParams_get q name = map_of q name"

record Request =
  req_method :: string
  url :: URL
  req_headers :: Headers

text \<open>
  A \<^verbatim>\<open>Response\<close>, the upstream's as well as the worker's own. A \<^verbatim>\<open>null\<close> body is
  \<open>None\<close>. \<^verbatim>\<open>response.ok\<close> is the runtime's test for a status from 200 to 299.
\<close>

record Response =
  status :: nat
  statusText :: string
  headers :: Headers
  body :: "string option"

definition ok :: "Response \<Rightarrow> bool" where
  "ok r = (200 \<le> status r \<and> status r \<le> 299)"

text \<open>
  \<^verbatim>\<open>new Response(text, { status })\<close> with a string for the body, as the Fetch standard has
  it: the constructor throws a \<^verbatim>\<open>RangeError\<close> for a status outside 200 to 599 and a
  \<^verbatim>\<open>TypeError\<close> for a status that allows no body (101, 103, 204, 205, 304); otherwise
  the response has the status, an empty status text, the body, and the content type of a
  string body as its one header. A thrown error is \<open>Inl\<close> of its message. The wording of
  the two messages is the runtime's own, the parameter \<open>rt\<close>.
\<close>

record Runtime =
  rangeErrorMessage :: string
  typeErrorMessage :: string

definition null_body_status :: "nat \<Rightarrow> bool" where
  "null_body_status s = (s = 101 \<or> s = 103 \<or> s = 204 \<or> s = 205 \<or> s = 304)"

definition text_response :: "string \<Rightarrow> nat \<Rightarrow> Response" where
  "text_response text s =
     \<lparr>status = s, statusText = [],
      headers = [''content-type'' \<mapsto> ''text/plain;charset=UTF-8''], body = Some text\<rparr>"

definition new_Response :: "Runtime \<Rightarrow> string \<Rightarrow> nat \<Rightarrow> string + Response" where
  "new_Response rt text s =
     (if s < 200 \<or> 599 < s then Inl (rangeErrorMessage rt)
      else if null_body_status s then Inl (typeErrorMessage rt)
      else Inr (text_response text s))"

text \<open>
  The bindings \<^verbatim>\<open>env\<close> the worker reads; an unset binding is \<open>None\<close>. \<^verbatim>\<open>{}\<close> is
  \<open>empty_env\<close>.
\<close>

record Env =
  GITHUB_TOKEN :: "string option"
  GITHUB_OWNER :: "string option"
  ALLOW_QUERY_PARAM_TOKEN :: "string option"
  CACHE_TIME :: "string option"

definition empty_env :: Env where
  "empty_env = \<lparr>GITHUB_TOKEN = None, GITHUB_OWNER = None,
                 ALLOW_QUERY_PARAM_TOKEN = None, CACHE_TIME = None\<rparr>"

text \<open>
  JavaScript's truthiness on a value that is a string, \<^verbatim>\<open>null\<close> or \<^verbatim>\<open>undefined\<close>: only a
  non-empty string is truthy. \<^verbatim>\<open>a || b\<close> is \<open>a\<close> when \<open>a\<close> is truthy and \<open>b\<close> otherwise.
\<close>

definition truthy :: "string option \<Rightarrow> bool" where
  "truthy v = (case v of None \<Rightarrow> False | Some s \<Rightarrow> s \<noteq> [])"

definition or_else :: "string option \<Rightarrow> string \<Rightarrow> string" where
  "or_else a b = (case a of None \<Rightarrow> b | Some s \<Rightarrow> if s \<noteq> [] then s else b)"

text \<open>
  The second argument of the global \<^verbatim>\<open>fetch\<close>. The worker passes \<^verbatim>\<open>{ headers }\<close> only; a
  call that names no method is a GET. The network is the parameter \<open>net\<close> of the
  handlers: it stands for the whole of \<^verbatim>\<open>fetch\<close>, redirects followed, and answers a call
  with the upstream response or fails with the message of the error \<^verbatim>\<open>fetch\<close> throws.
\<close>

record RequestInit =
  init_method :: "string option"
  init_headers :: "(string \<times> string) list"

definition method_of :: "RequestInit \<Rightarrow> string" where
  "method_of i = (case init_method i of None \<Rightarrow> ''GET'' | Some m \<Rightarrow> m)"

type_synonym network = "string \<Rightarrow> RequestInit \<Rightarrow> string + Response"

section \<open>Strings\<close>

text \<open>A number inside a template literal is printed in decimal.\<close>

definition digit :: "nat \<Rightarrow> char" where
  "digit d = ''0123456789'' ! d"

function show_nat :: "nat \<Rightarrow> string" where
  "show_nat n = (if n < 10 then [digit n] else show_nat (n div 10) @ [digit (n mod 10)])"
  by pat_completeness auto
termination
  by (relation "measure id") auto

declare show_nat.simps [simp del]

text \<open>\<^verbatim>\<open>s.split('/')\<close>: the pieces between the slashes, empty pieces included.\<close>

fun split_slash :: "string \<Rightarrow> string list" where
  "split_slash [] = [[]]"
| "split_slash (c # cs) =
     (if c = CHR ''/'' then [] # split_slash cs
      else (case split_slash cs of p # ps \<Rightarrow> (c # p) # ps | [] \<Rightarrow> [[c]]))"

text \<open>\<^verbatim>\<open>xs.join('/')\<close>.\<close>

fun join_slash :: "string list \<Rightarrow> string" where
  "join_slash [] = []"
| "join_slash [p] = p"
| "join_slash (p # q # ps) = p @ ''/'' @ join_slash (q # ps)"

text \<open>\<^verbatim>\<open>s.replace(/^\/+/, '')\<close>: the string without its leading slashes.\<close>

definition strip_slashes :: "string \<Rightarrow> string" where
  "strip_slashes s = dropWhile (\<lambda>c. c = CHR ''/'') s"

section \<open>Configuration and helper functions\<close>

definition corsOrigin :: string where
  "corsOrigin = ''*''"

definition githubDomain :: string where
  "githubDomain = ''raw.githubusercontent.com''"

definition defaultCacheTime :: nat where
  "defaultCacheTime = 86400"

definition getToken :: "Request \<Rightarrow> Env \<Rightarrow> string option" where
  "getToken request env =
     (let headerToken = Headers_get (req_headers request) ''X-GitHub-Token'' in
      if truthy headerToken then headerToken
      else if ALLOW_QUERY_PARAM_TOKEN env = Some ''true''
              \<and> searchParams_has (searchParams (url request)) ''token''
           then searchParams_get (searchParams (url request)) ''token''
      else if truthy (GITHUB_TOKEN env) then GITHUB_TOKEN env
      else None)"

definition handleGitHubError :: "Runtime \<Rightarrow> Response \<Rightarrow> string + Response" where
  "handleGitHubError rt response =
     (if status response = 404
      then new_Response rt ''File not found. Check repository, branch, and file path.'' 404
      else if status response = 401 \<or> status response = 403
      then new_Response rt ''Access denied. Your token may be invalid or lack permissions.'' 403
      else new_Response rt
             (''GitHub API error: '' @ show_nat (status response) @ '' ''
              @ statusText response)
             (status response))"

text \<open>
  \<open>applyHeaders\<close> changes the \<^verbatim>\<open>Headers\<close> object it is given; the model returns the
  changed object. \<^verbatim>\<open>config.defaultCacheTime\<close> is a number, which the template literal
  prints; the model prints it before the \<^verbatim>\<open>||\<close>, which yields the same string.
\<close>

definition applyHeaders :: "Headers \<Rightarrow> Env \<Rightarrow> Headers" where
  "applyHeaders h env =
     (let cacheTime = or_else (CACHE_TIME env) (show_nat defaultCacheTime);
          h1 = Headers_set h ''Cache-Control'' (''public, max-age='' @ cacheTime);
          h2 = Headers_set h1 ''Access-Control-Allow-Origin'' corsOrigin;
          h3 = Headers_set h2 ''Access-Control-Allow-Methods'' ''GET, HEAD, OPTIONS'';
          h4 = Headers_set h3 ''Access-Control-Max-Age'' ''86400'';
          h5 = Headers_set h4 ''X-Content-Type-Options'' ''nosniff'';
          h6 = Headers_set h5 ''X-Frame-Options'' ''DENY''
      in Headers_set h6 ''Referrer-Policy'' ''strict-origin-when-cross-origin'')"

text \<open>
  \<^verbatim>\<open>new Response(null, { headers })\<close> has no body, the status 200 and the headers given;
  the landing page names its own content type, so the constructor adds none. Both are
  accepted by the constructor.
\<close>

definition handleOptions :: "Request \<Rightarrow> Response" where
  "handleOptions request =
     (let h = applyHeaders Map.empty empty_env;
          h' = Headers_set h ''Access-Control-Allow-Headers''
                 (or_else (Headers_get (req_headers request) ''Access-Control-Request-Headers'')
                          ''X-GitHub-Token, Content-Type'')
      in \<lparr>status = 200, statusText = [], headers = h', body = None\<rparr>)"

text \<open>
  The landing page is one template literal of markup with \<^verbatim>\<open>url.origin\<close> put in at one
  place; the two variants differ in the language of the text. The literal is the
  parameter \<open>html\<close>, a function of the origin.
\<close>

definition generateLandingPage :: "(string \<Rightarrow> string) \<Rightarrow> URL \<Rightarrow> Response" where
  "generateLandingPage html u =
     \<lparr>status = 200, statusText = [],
      headers = Headers_set
                  (Headers_set Map.empty ''Content-Type'' ''text/html;charset=UTF-8'')
                  ''Cache-Control'' (''public, max-age='' @ show_nat defaultCacheTime),
      body = Some (html (origin u))\<rparr>"

section \<open>The two fetch handlers\<close>

text \<open>
  A handler returns the calls it made to the global \<^verbatim>\<open>fetch\<close>, in order, and its
  response. Inside the \<^verbatim>\<open>try\<close> block a result is the response returned or \<open>Inl\<close> of the
  message of the error thrown: by \<^verbatim>\<open>fetch\<close>, or by a \<^verbatim>\<open>new Response\<close>, that of
  \<open>handleGitHubError\<close> included. \<open>try_catch\<close> is the \<^verbatim>\<open>catch\<close> block; its own response,
  a string with status 500, is one the constructor accepts.

  \<^verbatim>\<open>new Response(githubResponse.body, githubResponse)\<close> copies status, status text and
  headers of the upstream response, whose status is from 200 to 299 there, and takes the
  body stream the runtime delivered with that status.
\<close>

definition try_catch ::
  "(string \<times> RequestInit) list \<times> (string + Response)
     \<Rightarrow> (string \<times> RequestInit) list \<times> Response" where
  "try_catch p =
     (case snd p of
        Inr response \<Rightarrow> (fst p, response)
      | Inl message \<Rightarrow> (fst p, text_response (''Proxy request failed: '' @ message) 500))"

definition fetch_cdn_worker ::
  "Runtime \<Rightarrow> (string \<Rightarrow> string) \<Rightarrow> network \<Rightarrow> Request \<Rightarrow> Env
     \<Rightarrow> (string \<times> RequestInit) list \<times> Response" where
  "fetch_cdn_worker rt html net request env =
     (if req_method request = ''OPTIONS'' then ([], handleOptions request)
      else if pathname (url request) = ''/'' \<or> pathname (url request) = []
      then ([], generateLandingPage html (url request))
      else try_catch
       (let token = getToken request env;
            owner = GITHUB_OWNER env
        in if \<not> truthy owner
           then ([], new_Response rt ''GITHUB_OWNER environment variable not set.'' 500)
           else
             let parts = split_slash (strip_slashes (pathname (url request)))
             in if length parts < 3
                then ([], new_Response rt ''Invalid path. Format: /repo/branch/path-to-file'' 400)
                else
                  let repo = parts ! 0;
                      branch = parts ! 1;
                      fileParts = drop 2 parts;
                      githubUrl = ''https://'' @ githubDomain @ ''/'' @ the owner @ ''/'' @ repo
                                  @ ''/'' @ branch @ ''/'' @ join_slash fileParts;
                      hdrs = (if truthy token
                              then [(''Authorization'', ''token '' @ the token)] else []);
                      init = \<lparr>init_method = None, init_headers = hdrs\<rparr>
                  in case net githubUrl init of
                       Inl message \<Rightarrow> ([(githubUrl, init)], Inl message)
                     | Inr githubResponse \<Rightarrow>
                         if \<not> ok githubResponse
                         then ([(githubUrl, init)], handleGitHubError rt githubResponse)
                         else ([(githubUrl, init)],
                               Inr \<lparr>status = status githubResponse,
                                    statusText = statusText githubResponse,
                                    headers = applyHeaders (headers githubResponse) env,
                                    body = body githubResponse\<rparr>)))"

definition fetch_part_000 ::
  "Runtime \<Rightarrow> (string \<Rightarrow> string) \<Rightarrow> network \<Rightarrow> Request \<Rightarrow> Env
     \<Rightarrow> (string \<times> RequestInit) list \<times> Response" where
  "fetch_part_000 rt html net request env =
     (if req_method request = ''OPTIONS'' then ([], handleOptions request)
      else if pathname (url request) = ''/'' \<or> pathname (url request) = []
      then ([], generateLandingPage html (url request))
      else try_catch
       (let token = getToken request env;
            githubUrl = ''https://'' @ githubDomain @ pathname (url request);
            init = \<lparr>init_method = None,
                    init_headers = (if truthy token
                                    then [(''Authorization'', ''token '' @ the token)] else [])\<rparr>
        in case net githubUrl init of
             Inl message \<Rightarrow> ([(githubUrl, init)], Inl message)
           | Inr githubResponse \<Rightarrow>
               if \<not> ok githubResponse
               then ([(githubUrl, init)], handleGitHubError rt githubResponse)
               else ([(githubUrl, init)],
                     Inr \<lparr>status = status githubResponse,
                          statusText = statusText githubResponse,
                          headers = applyHeaders (headers githubResponse) env,
                          body = body githubResponse\<rparr>)))"

section \<open>Vocabulary of the properties\<close>

text \<open>
  A content-path request is one that is neither a preflight nor a request for the root
  path: the requests that reach the \<^verbatim>\<open>try\<close> block of a handler.
\<close>

definition content_path :: "Request \<Rightarrow> bool" where
  "content_path request =
     (req_method request \<noteq> ''OPTIONS'' \<and> pathname (url request) \<noteq> ''/''
      \<and> pathname (url request) \<noteq> [])"

text \<open>The segments of the request path, as the fixed-owner variant computes them.\<close>

definition segments :: "Request \<Rightarrow> string list" where
  "segments request = split_slash (strip_slashes (pathname (url request)))"

definition nonempty_segments :: "Request \<Rightarrow> string list" where
  "nonempty_segments request = filter (\<lambda>p. p \<noteq> []) (segments request)"

text \<open>The stored names of the seven headers \<open>applyHeaders\<close> writes.\<close>

definition rewritten :: "string list" where
  "rewritten = [''cache-control'', ''access-control-allow-origin'',
                ''access-control-allow-methods'', ''access-control-max-age'',
                ''x-content-type-options'', ''x-frame-options'', ''referrer-policy'']"

text \<open>Reading a decimal numeral back, to say that \<open>show_nat\<close> prints in base ten.\<close>

definition read_nat :: "string \<Rightarrow> nat" where
  "read_nat s = foldl (\<lambda>a c. 10 * a + (of_char c - 48)) 0 s"

section \<open>Sample inputs\<close>

text \<open>A network that answers every call with the same response, and one that fails.\<close>

definition answer :: "Response \<Rightarrow> network" where
  "answer r u i = Inr r"

definition unreachable :: network where
  "unreachable u i = Inl ''connection refused''"

definition workers :: Runtime where
  "workers = \<lparr>rangeErrorMessage = ''status out of range'',
              typeErrorMessage = ''status allows no body''\<rparr>"

definition page :: "string \<Rightarrow> string" where
  "page orig = ''<code>'' @ orig @ ''/repo/branch/path-to-file</code>''"

definition sample_url :: URL where
  "sample_url = \<lparr>origin = ''https://cdn.example'', pathname = ''/site/main/img/a.png'',
                  searchParams = [(''token'', ''qtok'')]\<rparr>"

definition req_header :: Request where
  "req_header = \<lparr>req_method = ''GET'', url = sample_url,
                  req_headers = [''x-github-token'' \<mapsto> ''htok'']\<rparr>"

definition req_query :: Request where
  "req_query = \<lparr>req_method = ''GET'', url = sample_url, req_headers = Map.empty\<rparr>"

definition req_empty_query :: Request where
  "req_empty_query =
     \<lparr>req_method = ''GET'', url = sample_url\<lparr>searchParams := [(''token'', [])]\<rparr>,
      req_headers = Map.empty\<rparr>"

definition req_head :: Request where
  "req_head = \<lparr>req_method = ''HEAD'', url = sample_url, req_headers = Map.empty\<rparr>"

definition req_root :: Request where
  "req_root = \<lparr>req_method = ''GET'', url = sample_url\<lparr>pathname := ''/''\<rparr>,
                req_headers = Map.empty\<rparr>"

definition req_short :: Request where
  "req_short = \<lparr>req_method = ''GET'', url = sample_url\<lparr>pathname := ''/site/main''\<rparr>,
                 req_headers = Map.empty\<rparr>"

definition req_gaps :: Request where
  "req_gaps = \<lparr>req_method = ''GET'', url = sample_url\<lparr>pathname := ''/site//''\<rparr>,
                req_headers = Map.empty\<rparr>"

definition req_options :: Request where
  "req_options = \<lparr>req_method = ''OPTIONS'', url = sample_url,
                   req_headers = [''access-control-request-headers'' \<mapsto> ''X-GitHub-Token'']\<rparr>"

definition req_options_blank :: Request where
  "req_options_blank = \<lparr>req_method = ''OPTIONS'', url = sample_url,
                         req_headers = [''access-control-request-headers'' \<mapsto> []]\<rparr>"

definition env_full :: Env where
  "env_full = \<lparr>GITHUB_TOKEN = Some ''etok'', GITHUB_OWNER = Some ''octocat'',
               ALLOW_QUERY_PARAM_TOKEN = Some ''true'', CACHE_TIME = Some ''3600''\<rparr>"

definition env_closed :: Env where
  "env_closed = \<lparr>GITHUB_TOKEN = Some ''etok'', GITHUB_OWNER = Some ''octocat'',
                 ALLOW_QUERY_PARAM_TOKEN = None, CACHE_TIME = None\<rparr>"

definition env_anonymous :: Env where
  "env_anonymous = \<lparr>GITHUB_TOKEN = None, GITHUB_OWNER = Some ''octocat'',
                    ALLOW_QUERY_PARAM_TOKEN = Some ''false'', CACHE_TIME = Some []\<rparr>"

definition up200 :: Response where
  "up200 = \<lparr>status = 200, statusText = ''OK'',
            headers = [''content-type'' \<mapsto> ''image/png'', ''etag'' \<mapsto> ''W/1'',
                       ''content-length'' \<mapsto> ''3'', ''cache-control'' \<mapsto> ''max-age=300'',
                       ''x-frame-options'' \<mapsto> ''SAMEORIGIN''],
            body = Some ''PNG''\<rparr>"

definition up300 :: Response where
  "up300 = \<lparr>status = 300, statusText = ''Multiple Choices'',
            headers = [''content-type'' \<mapsto> ''text/plain''], body = Some ''choose one''\<rparr>"


definition up404 :: Response where
  "up404 = \<lparr>status = 404, statusText = ''Not Found'', headers = Map.empty,
            body = Some ''404: Not Found''\<rparr>"

definition up401 :: Response where
  "up401 = \<lparr>status = 401, statusText = ''Unauthorized'', headers = Map.empty,
            body = Some ''Bad credentials''\<rparr>"

definition up503 :: Response where
  "up503 = \<lparr>status = 503, statusText = ''Service Unavailable'',
            headers = [''retry-after'' \<mapsto> ''5''], body = Some ''busy''\<rparr>"

section \<open>Facts about the helpers\<close>

lemma lower_X_GitHub_Token: "lower ''X-GitHub-Token'' = ''x-github-token''"
  by (simp add: lower_def lower_char_def)
lemma lower_ACRH: "lower ''Access-Control-Request-Headers'' = ''access-control-request-headers''"
  by (simp add: lower_def lower_char_def)
lemma lower_ACAH: "lower ''Access-Control-Allow-Headers'' = ''access-control-allow-headers''"
  by (simp add: lower_def lower_char_def)
lemma lower_Cache_Control: "lower ''Cache-Control'' = ''cache-control''"
  by (simp add: lower_def lower_char_def)
lemma lower_ACAO: "lower ''Access-Control-Allow-Origin'' = ''access-control-allow-origin''"
  by (simp add: lower_def lower_char_def)
lemma lower_ACAM: "lower ''Access-Control-Allow-Methods'' = ''access-control-allow-methods''"
  by (simp add: lower_def lower_char_def)
lemma lower_ACMA: "lower ''Access-Control-Max-Age'' = ''access-control-max-age''"
  by (simp add: lower_def lower_char_def)
lemma lower_XCTO: "lower ''X-Content-Type-Options'' = ''x-content-type-options''"
  by (simp add: lower_def lower_char_def)
lemma lower_XFO: "lower ''X-Frame-Options'' = ''x-frame-options''"
  by (simp add: lower_def lower_char_def)
lemma lower_RP: "lower ''Referrer-Policy'' = ''referrer-policy''"
  by (simp add: lower_def lower_char_def)
lemma lower_CT: "lower ''Content-Type'' = ''content-type''"
  by (simp add: lower_def lower_char_def)
lemma lower_ETag: "lower ''ETag'' = ''etag''"
  by (simp add: lower_def lower_char_def)
lemma lower_CL: "lower ''Content-Length'' = ''content-length''"
  by (simp add: lower_def lower_char_def)

lemmas lower_names = lower_X_GitHub_Token lower_ACRH lower_ACAH lower_Cache_Control lower_ACAO
  lower_ACAM lower_ACMA lower_XCTO lower_XFO lower_RP lower_CT lower_ETag lower_CL

lemma show_nat_defaultCacheTime: "show_nat defaultCacheTime = ''86400''"
  by (simp add: defaultCacheTime_def show_nat.simps digit_def)

lemma digit_value: "d < 10 \<Longrightarrow> of_char (digit d) = 48 + d"
proof -
  assume "d < 10"
  then have "d \<in> {0, 1, 2, 3, 4, 5, 6, 7, 8, 9}" by auto
  then show ?thesis by (auto simp: digit_def)
qed

lemma read_nat_snoc: "read_nat (s @ [c]) = 10 * read_nat s + (of_char c - 48)"
  by (simp add: read_nat_def)

lemma read_show_nat: "read_nat (show_nat n) = n"
proof (induction n rule: show_nat.induct)
  case (1 n)
  show ?case
  proof (cases "n < 10")
    case True
    then show ?thesis
      by (subst show_nat.simps) (simp add: read_nat_def digit_value)
  next
    case False
    then have "read_nat (show_nat (n div 10)) = n div 10"
      using "1" by simp
    with False show ?thesis
      by (subst show_nat.simps) (simp add: read_nat_snoc digit_value)
  qed
qed

lemma applyHeaders_get:
  "Headers_get (applyHeaders h env) n =
     (if lower n = ''referrer-policy'' then Some ''strict-origin-when-cross-origin''
      else if lower n = ''x-frame-options'' then Some ''DENY''
      else if lower n = ''x-content-type-options'' then Some ''nosniff''
      else if lower n = ''access-control-max-age'' then Some ''86400''
      else if lower n = ''access-control-allow-methods'' then Some ''GET, HEAD, OPTIONS''
      else if lower n = ''access-control-allow-origin'' then Some ''*''
      else if lower n = ''cache-control''
           then Some (''public, max-age='' @ or_else (CACHE_TIME env) ''86400'')
      else Headers_get h n)"
  by (simp add: applyHeaders_def Headers_get_def Headers_set_def Let_def lower_names
      show_nat_defaultCacheTime corsOrigin_def)

lemma applyHeaders_frame:
  "lower n \<notin> set rewritten \<Longrightarrow> Headers_get (applyHeaders h env) n = Headers_get h n"
  by (simp add: applyHeaders_get rewritten_def)

lemma getToken_header:
  "Headers_get (req_headers request) ''X-GitHub-Token'' = Some T \<Longrightarrow> T \<noteq> []
     \<Longrightarrow> getToken request env = Some T"
  by (simp add: getToken_def truthy_def)

lemma getToken_closed:
  "\<not> truthy (Headers_get (req_headers request) ''X-GitHub-Token'')
     \<Longrightarrow> ALLOW_QUERY_PARAM_TOKEN env \<noteq> Some ''true''
     \<Longrightarrow> getToken request env = (if truthy (GITHUB_TOKEN env) then GITHUB_TOKEN env else None)"
  by (simp add: getToken_def)

lemma getToken_query:
  "\<not> truthy (Headers_get (req_headers request) ''X-GitHub-Token'')
     \<Longrightarrow> ALLOW_QUERY_PARAM_TOKEN env = Some ''true''
     \<Longrightarrow> searchParams_get (searchParams (url request)) ''token'' = Some T
     \<Longrightarrow> getToken request env = Some T"
  by (auto simp: getToken_def searchParams_has_def searchParams_get_def dest: map_of_SomeD
      intro: rev_image_eqI)

text \<open>When the constructor accepts, and what the error mapper then returns.\<close>

lemma new_Response_accepts:
  "200 \<le> s \<Longrightarrow> s \<le> 599 \<Longrightarrow> \<not> null_body_status s
     \<Longrightarrow> new_Response rt text s = Inr (text_response text s)"
  by (simp add: new_Response_def)

lemma new_Response_fixed [simp]:
  "new_Response rt text 400 = Inr (text_response text 400)"
  "new_Response rt text 403 = Inr (text_response text 403)"
  "new_Response rt text 404 = Inr (text_response text 404)"
  "new_Response rt text 500 = Inr (text_response text 500)"
  by (simp_all add: new_Response_def null_body_status_def)

lemma handleGitHubError_returns:
  "handleGitHubError rt r =
     (if status r = 404
      then Inr (text_response ''File not found. Check repository, branch, and file path.'' 404)
      else if status r = 401 \<or> status r = 403
      then Inr (text_response
                  ''Access denied. Your token may be invalid or lack permissions.'' 403)
      else if status r < 200 \<or> 599 < status r then Inl (rangeErrorMessage rt)
      else if null_body_status (status r) then Inl (typeErrorMessage rt)
      else Inr (text_response
                  (''GitHub API error: '' @ show_nat (status r) @ '' '' @ statusText r)
                  (status r)))"
  by (simp add: handleGitHubError_def) (simp add: new_Response_def)

lemma handleGitHubError_not_ok:
  "\<not> ok r \<Longrightarrow> handleGitHubError rt r = Inr e \<Longrightarrow> \<not> ok e"
  by (auto simp: handleGitHubError_returns text_response_def ok_def split: if_splits)

text \<open>What each handler hands to \<^verbatim>\<open>fetch\<close>, and what it answers once the call has returned.\<close>

lemma truthy_simps [simp]: "truthy None = False" "truthy (Some s) = (s \<noteq> [])"
  by (simp_all add: truthy_def)

lemma fetch_cdn_worker_proxied:
  assumes "content_path request" and "truthy (GITHUB_OWNER env)"
    and "3 \<le> length (segments request)"
  shows "fetch_cdn_worker rt html net request env =
     try_catch
       (let githubUrl = ''https://raw.githubusercontent.com/'' @ the (GITHUB_OWNER env) @ ''/''
               @ segments request ! 0 @ ''/'' @ segments request ! 1 @ ''/''
               @ join_slash (drop 2 (segments request));
            init = \<lparr>init_method = None,
              init_headers = (if truthy (getToken request env)
                              then [(''Authorization'', ''token '' @ the (getToken request env))]
                              else [])\<rparr>
        in ([(githubUrl, init)],
            case net githubUrl init of
              Inl message \<Rightarrow> Inl message
            | Inr r \<Rightarrow>
                if ok r then Inr \<lparr>status = status r, statusText = statusText r,
                                 headers = applyHeaders (headers r) env, body = body r\<rparr>
                else handleGitHubError rt r))"
  using assms
  by (simp add: fetch_cdn_worker_def content_path_def segments_def Let_def githubDomain_def
      split: sum.splits)

lemma fetch_cdn_worker_unproxied:
  assumes "\<not> (content_path request \<and> truthy (GITHUB_OWNER env)
              \<and> 3 \<le> length (segments request))"
  shows "fst (fetch_cdn_worker rt html net request env) = []"
  using assms
  by (auto simp: fetch_cdn_worker_def try_catch_def content_path_def segments_def Let_def)

lemma fetch_part_000_proxied:
  assumes "content_path request"
  shows "fetch_part_000 rt html net request env =
     try_catch
       (let githubUrl = ''https://raw.githubusercontent.com'' @ pathname (url request);
            init = \<lparr>init_method = None,
              init_headers = (if truthy (getToken request env)
                              then [(''Authorization'', ''token '' @ the (getToken request env))]
                              else [])\<rparr>
        in ([(githubUrl, init)],
            case net githubUrl init of
              Inl message \<Rightarrow> Inl message
            | Inr r \<Rightarrow>
                if ok r then Inr \<lparr>status = status r, statusText = statusText r,
                                 headers = applyHeaders (headers r) env, body = body r\<rparr>
                else handleGitHubError rt r))"
  using assms
  by (simp add: fetch_part_000_def content_path_def Let_def githubDomain_def
      split: sum.splits)

lemma fetch_part_000_unproxied:
  assumes "\<not> content_path request"
  shows "fst (fetch_part_000 rt html net request env) = []"
  using assms
  by (auto simp: fetch_part_000_def content_path_def)

lemma fst_try_catch [simp]: "fst (try_catch p) = fst p"
  by (simp add: try_catch_def split: sum.splits)

lemma fetch_cdn_worker_calls:
  "fst (fetch_cdn_worker rt html net request env) =
     (if content_path request \<and> truthy (GITHUB_OWNER env) \<and> 3 \<le> length (segments request)
      then [(''https://raw.githubusercontent.com/'' @ the (GITHUB_OWNER env) @ ''/''
               @ segments request ! 0 @ ''/'' @ segments request ! 1 @ ''/''
               @ join_slash (drop 2 (segments request)),
             \<lparr>init_method = None,
              init_headers = (if truthy (getToken request env)
                              then [(''Authorization'', ''token '' @ the (getToken request env))]
                              else [])\<rparr>)]
      else [])"
proof (cases "content_path request \<and> truthy (GITHUB_OWNER env) \<and> 3 \<le> length (segments request)")
  case True
  then show ?thesis
    by (simp add: fetch_cdn_worker_proxied Let_def)
next
  case False
  then show ?thesis
    using fetch_cdn_worker_unproxied [of request env rt html net] by simp
qed

lemma fetch_part_000_calls:
  "fst (fetch_part_000 rt html net request env) =
     (if content_path request
      then [(''https://raw.githubusercontent.com'' @ pathname (url request),
             \<lparr>init_method = None,
              init_headers = (if truthy (getToken request env)
                              then [(''Authorization'', ''token '' @ the (getToken request env))]
                              else [])\<rparr>)]
      else [])"
  by (simp add: fetch_part_000_proxied fetch_part_000_unproxied Let_def)

lemma fetch_cdn_worker_answer:
  assumes "fst (fetch_cdn_worker rt html net request env) = [(u, i)]" and "net u i = Inr r"
  shows "snd (fetch_cdn_worker rt html net request env) =
           (if ok r then \<lparr>status = status r, statusText = statusText r,
                           headers = applyHeaders (headers r) env, body = body r\<rparr>
            else case handleGitHubError rt r of
                   Inr e \<Rightarrow> e
                 | Inl message \<Rightarrow> text_response (''Proxy request failed: '' @ message) 500)"
proof -
  have c: "content_path request \<and> truthy (GITHUB_OWNER env) \<and> 3 \<le> length (segments request)"
    using assms(1) fetch_cdn_worker_unproxied [of request env rt html net] by auto
  then have ui: "[(u, i)] = [(''https://raw.githubusercontent.com/'' @ the (GITHUB_OWNER env) @ ''/''
               @ segments request ! 0 @ ''/'' @ segments request ! 1 @ ''/''
               @ join_slash (drop 2 (segments request)),
             \<lparr>init_method = None,
              init_headers = (if truthy (getToken request env)
                              then [(''Authorization'', ''token '' @ the (getToken request env))]
                              else [])\<rparr>)]"
    using assms(1) by (auto simp: fetch_cdn_worker_calls)
  show ?thesis
    using c ui assms(2)
    by (simp add: fetch_cdn_worker_proxied Let_def try_catch_def split: sum.splits)
qed

lemma fetch_part_000_answer:
  assumes "fst (fetch_part_000 rt html net request env) = [(u, i)]" and "net u i = Inr r"
  shows "snd (fetch_part_000 rt html net request env) =
           (if ok r then \<lparr>status = status r, statusText = statusText r,
                           headers = applyHeaders (headers r) env, body = body r\<rparr>
            else case handleGitHubError rt r of
                   Inr e \<Rightarrow> e
                 | Inl message \<Rightarrow> text_response (''Proxy request failed: '' @ message) 500)"
proof -
  have c: "content_path request"
    using assms(1) fetch_part_000_unproxied [of request rt html net env] by auto
  then have ui: "[(u, i)] = [(''https://raw.githubusercontent.com'' @ pathname (url request),
             \<lparr>init_method = None,
              init_headers = (if truthy (getToken request env)
                              then [(''Authorization'', ''token '' @ the (getToken request env))]
                              else [])\<rparr>)]"
    using assms(1) by (auto simp: fetch_part_000_calls)
  show ?thesis
    using c ui assms(2)
    by (simp add: fetch_part_000_proxied Let_def try_catch_def split: sum.splits)
qed

lemma sample_content:
  "content_path req_header" "content_path req_query" "content_path req_empty_query"
  "content_path req_head" "content_path req_gaps" "content_path req_short"
  by (simp_all add: content_path_def req_header_def req_query_def req_empty_query_def
      req_head_def req_gaps_def req_short_def sample_url_def)

lemma sample_segments:
  "segments req_header = [''site'', ''main'', ''img'', ''a.png'']"
  "segments req_query = [''site'', ''main'', ''img'', ''a.png'']"
  "segments req_empty_query = [''site'', ''main'', ''img'', ''a.png'']"
  "segments req_head = [''site'', ''main'', ''img'', ''a.png'']"
  "segments req_gaps = [''site'', [], []]"
  "segments req_short = [''site'', ''main'']"
  by (simp_all add: segments_def strip_slashes_def req_header_def req_query_def
      req_empty_query_def req_head_def req_gaps_def req_short_def sample_url_def)

section \<open>Token resolution\<close>

text \<open>
  C1. A request whose \<^verbatim>\<open>X-GitHub-Token\<close> header is present with the non-empty value \<open>T\<close>
  resolves to the token \<open>T\<close>, whatever the query, the flag
  \<^verbatim>\<open>ALLOW_QUERY_PARAM_TOKEN\<close> and the binding \<^verbatim>\<open>GITHUB_TOKEN\<close> are. Every call either
  handler makes to \<^verbatim>\<open>fetch\<close> then carries the one header \<^verbatim>\<open>Authorization: token T\<close>, and a
  content-path request makes such a call (in the fixed-owner variant: when the owner is
  configured and the path has its three segments).
\<close>

theorem header_token_wins:
  assumes "Headers_get (req_headers request) ''X-GitHub-Token'' = Some T" and "T \<noteq> []"
  shows "getToken request env = Some T
    \<and> (\<forall>call \<in> set (fst (fetch_cdn_worker rt html net request env)).
          init_headers (snd call) = [(''Authorization'', ''token '' @ T)])
    \<and> (\<forall>call \<in> set (fst (fetch_part_000 rt html net request env)).
          init_headers (snd call) = [(''Authorization'', ''token '' @ T)])
    \<and> (content_path request \<and> truthy (GITHUB_OWNER env) \<and> 3 \<le> length (segments request)
         \<longrightarrow> map (init_headers \<circ> snd) (fst (fetch_cdn_worker rt html net request env))
               = [[(''Authorization'', ''token '' @ T)]])
    \<and> (content_path request
         \<longrightarrow> map (init_headers \<circ> snd) (fst (fetch_part_000 rt html net request env))
               = [[(''Authorization'', ''token '' @ T)]])"
proof -
  have tok: "getToken request env = Some T"
    using assms by (rule getToken_header)
  moreover have "truthy (Some T)"
    using assms(2) by (simp add: truthy_def)
  ultimately show ?thesis
    by (simp add: fetch_cdn_worker_calls fetch_part_000_calls)
qed

theorem header_token_wins_witness:
  "getToken req_header env_full = Some ''htok''
   \<and> fst (fetch_cdn_worker workers page (answer up200) req_header env_full)
       = [(''https://raw.githubusercontent.com/octocat/site/main/img/a.png'',
           \<lparr>init_method = None, init_headers = [(''Authorization'', ''token htok'')]\<rparr>)]
   \<and> map (init_headers \<circ> snd) (fst (fetch_part_000 workers page (answer up200) req_header env_full))
       = [[(''Authorization'', ''token htok'')]]"
proof -
  have h: "Headers_get (req_headers req_header) ''X-GitHub-Token'' = Some ''htok''"
    by (simp add: Headers_get_def req_header_def lower_names)
  have o: "truthy (GITHUB_OWNER env_full)" "the (GITHUB_OWNER env_full) = ''octocat''"
    by (simp_all add: truthy_def env_full_def)
  from header_token_wins [OF h, of env_full workers page "answer up200"] o
  show ?thesis
    by (simp add: sample_content sample_segments fetch_cdn_worker_calls truthy_def)
qed

text \<open>
  C2, as stated: without the header and with the flag unset or different from
  \<^verbatim>\<open>"true"\<close>, a request with \<^verbatim>\<open>?token=T\<close> goes upstream with no \<^verbatim>\<open>Authorization\<close> header.
  This fails where \<^verbatim>\<open>GITHUB_TOKEN\<close> is configured: the third source of \<open>getToken\<close>
  supplies the token.
\<close>

theorem query_token_closed_counterexample:
  "Headers_get (req_headers req_query) ''X-GitHub-Token'' = None
   \<and> ALLOW_QUERY_PARAM_TOKEN env_closed \<noteq> Some ''true''
   \<and> searchParams_get (searchParams (url req_query)) ''token'' = Some ''qtok''
   \<and> map (init_headers \<circ> snd) (fst (fetch_cdn_worker workers page (answer up200) req_query env_closed))
       = [[(''Authorization'', ''token etok'')]]"
proof -
  have "getToken req_query env_closed = Some ''etok''"
    by (simp add: getToken_def Headers_get_def req_query_def env_closed_def truthy_def)
  moreover have "truthy (GITHUB_OWNER env_closed)"
    by (simp add: truthy_def env_closed_def)
  ultimately show ?thesis
    by (simp add: fetch_cdn_worker_calls sample_content sample_segments truthy_def)
      (simp add: Headers_get_def req_query_def env_closed_def searchParams_get_def
        sample_url_def)
qed

text \<open>
  C2, amended: without the header and with the flag unset or different from
  \<^verbatim>\<open>"true"\<close>, the query parameter \<^verbatim>\<open>token\<close> is never used. The resolved token is the
  configured \<^verbatim>\<open>GITHUB_TOKEN\<close> when that is non-empty, and none otherwise; every call to
  \<^verbatim>\<open>fetch\<close> carries \<^verbatim>\<open>Authorization: token <GITHUB_TOKEN>\<close> in the first case and no
  header in the second; and the resolved token is the same for every other query.
\<close>

theorem query_token_closed:
  assumes "Headers_get (req_headers request) ''X-GitHub-Token'' = None"
    and "ALLOW_QUERY_PARAM_TOKEN env \<noteq> Some ''true''"
    and "searchParams_get (searchParams (url request)) ''token'' = Some T"
  shows "getToken request env = (if truthy (GITHUB_TOKEN env) then GITHUB_TOKEN env else None)
    \<and> getToken (request\<lparr>url := (url request)\<lparr>searchParams := q\<rparr>\<rparr>) env = getToken request env
    \<and> (\<forall>call \<in> set (fst (fetch_cdn_worker rt html net request env)
                       @ fst (fetch_part_000 rt html net request env)).
          init_headers (snd call) =
            (if truthy (GITHUB_TOKEN env)
             then [(''Authorization'', ''token '' @ the (GITHUB_TOKEN env))] else []))
    \<and> (\<not> truthy (GITHUB_TOKEN env) \<and> content_path request
         \<longrightarrow> map (init_headers \<circ> snd) (fst (fetch_part_000 rt html net request env)) = [[]])
    \<and> (\<not> truthy (GITHUB_TOKEN env) \<and> content_path request \<and> truthy (GITHUB_OWNER env)
          \<and> 3 \<le> length (segments request)
         \<longrightarrow> map (init_headers \<circ> snd) (fst (fetch_cdn_worker rt html net request env)) = [[]])"
proof -
  have nh: "\<not> truthy (Headers_get (req_headers request) ''X-GitHub-Token'')"
    using assms(1) by (simp add: truthy_def)
  have tok: "getToken request env = (if truthy (GITHUB_TOKEN env) then GITHUB_TOKEN env else None)"
    using nh assms(2) by (rule getToken_closed)
  have same: "getToken (request\<lparr>url := (url request)\<lparr>searchParams := q\<rparr>\<rparr>) env
                = getToken request env"
    using nh assms(2) by (simp add: getToken_def)
  have t: "truthy (getToken request env) = truthy (GITHUB_TOKEN env)"
    by (simp add: tok truthy_def)
  show ?thesis
    using tok same
    by (auto simp: fetch_cdn_worker_calls fetch_part_000_calls t)
qed

theorem query_token_closed_witness:
  "getToken req_query env_anonymous = None
   \<and> fst (fetch_cdn_worker workers page (answer up200) req_query env_anonymous)
       = [(''https://raw.githubusercontent.com/octocat/site/main/img/a.png'',
           \<lparr>init_method = None, init_headers = []\<rparr>)]
   \<and> fst (fetch_part_000 workers page (answer up200) req_query env_anonymous)
       = [(''https://raw.githubusercontent.com/site/main/img/a.png'',
           \<lparr>init_method = None, init_headers = []\<rparr>)]"
proof -
  have h: "Headers_get (req_headers req_query) ''X-GitHub-Token'' = None"
    by (simp add: Headers_get_def req_query_def)
  have a: "ALLOW_QUERY_PARAM_TOKEN env_anonymous \<noteq> Some ''true''"
    by (simp add: env_anonymous_def)
  have q: "searchParams_get (searchParams (url req_query)) ''token'' = Some ''qtok''"
    by (simp add: searchParams_get_def req_query_def sample_url_def)
  have e: "\<not> truthy (GITHUB_TOKEN env_anonymous)" "truthy (GITHUB_OWNER env_anonymous)"
    "the (GITHUB_OWNER env_anonymous) = ''octocat''"
    by (simp_all add: truthy_def env_anonymous_def)
  have p: "pathname (url req_query) = ''/site/main/img/a.png''"
    by (simp add: req_query_def sample_url_def)
  from query_token_closed [OF h a q, of "[]" workers page "answer up200"] e p
  show ?thesis
    by (simp add: sample_content sample_segments fetch_cdn_worker_calls fetch_part_000_calls
        truthy_def)
qed

text \<open>
  C10. With the header absent or empty, the flag exactly \<^verbatim>\<open>"true"\<close> and the query
  parameter \<^verbatim>\<open>token\<close> present with the empty value, the resolved token is the empty
  string whatever \<^verbatim>\<open>GITHUB_TOKEN\<close> holds, and every call to \<^verbatim>\<open>fetch\<close> goes without
  headers: the empty token counts as absent there.
\<close>

theorem empty_query_token:
  assumes "\<not> truthy (Headers_get (req_headers request) ''X-GitHub-Token'')"
    and "ALLOW_QUERY_PARAM_TOKEN env = Some ''true''"
    and "searchParams_get (searchParams (url request)) ''token'' = Some []"
  shows "getToken request (env\<lparr>GITHUB_TOKEN := g\<rparr>) = Some []
    \<and> getToken request env = Some []
    \<and> (\<forall>call \<in> set (fst (fetch_cdn_worker rt html net request env)
                       @ fst (fetch_part_000 rt html net request env)).
          init_headers (snd call) = [])
    \<and> (content_path request
         \<longrightarrow> map (init_headers \<circ> snd) (fst (fetch_part_000 rt html net request env)) = [[]])
    \<and> (content_path request \<and> truthy (GITHUB_OWNER env) \<and> 3 \<le> length (segments request)
         \<longrightarrow> map (init_headers \<circ> snd) (fst (fetch_cdn_worker rt html net request env)) = [[]])"
proof -
  have "ALLOW_QUERY_PARAM_TOKEN (env\<lparr>GITHUB_TOKEN := g\<rparr>) = Some ''true''"
    using assms(2) by simp
  with assms(1) have any: "getToken request (env\<lparr>GITHUB_TOKEN := g\<rparr>) = Some []"
    using assms(3) by (rule getToken_query)
  have tok: "getToken request env = Some []"
    using assms by (rule getToken_query)
  have "\<not> truthy (Some [])"
    by (simp add: truthy_def)
  with any tok show ?thesis
    by (auto simp: fetch_cdn_worker_calls fetch_part_000_calls)
qed

theorem empty_query_token_witness:
  "getToken req_empty_query env_full = Some []
   \<and> truthy (GITHUB_TOKEN env_full)
   \<and> fst (fetch_cdn_worker workers page (answer up200) req_empty_query env_full)
       = [(''https://raw.githubusercontent.com/octocat/site/main/img/a.png'',
           \<lparr>init_method = None, init_headers = []\<rparr>)]
   \<and> map (init_headers \<circ> snd) (fst (fetch_part_000 workers page (answer up200) req_empty_query env_full))
       = [[]]"
proof -
  have h: "\<not> truthy (Headers_get (req_headers req_empty_query) ''X-GitHub-Token'')"
    by (simp add: Headers_get_def req_empty_query_def truthy_def)
  have a: "ALLOW_QUERY_PARAM_TOKEN env_full = Some ''true''"
    by (simp add: env_full_def)
  have q: "searchParams_get (searchParams (url req_empty_query)) ''token'' = Some []"
    by (simp add: searchParams_get_def req_empty_query_def sample_url_def)
  have e: "truthy (GITHUB_TOKEN env_full)" "truthy (GITHUB_OWNER env_full)"
    "the (GITHUB_OWNER env_full) = ''octocat''"
    by (simp_all add: truthy_def env_full_def)
  from empty_query_token [OF h a q, of "GITHUB_TOKEN env_full" workers page "answer up200"] e
  show ?thesis
    by (simp add: sample_content sample_segments fetch_cdn_worker_calls truthy_def)
qed

section \<open>Upstream errors\<close>

lemma handleGitHubError_accepted:
  assumes "\<not> ok r" and "200 \<le> status r" and "status r \<le> 599"
    and "\<not> null_body_status (status r)"
  shows "handleGitHubError rt r =
           Inr (if status r = 404
                then text_response
                       ''File not found. Check repository, branch, and file path.'' 404
                else if status r = 401 \<or> status r = 403
                then text_response
                       ''Access denied. Your token may be invalid or lack permissions.'' 403
                else text_response
                       (''GitHub API error: '' @ show_nat (status r) @ '' '' @ statusText r)
                       (status r))"
  using assms by (simp add: handleGitHubError_returns)

lemma handleGitHubError_samples:
  "handleGitHubError rt up404 =
     Inr \<lparr>status = 404, statusText = [],
          headers = [''content-type'' \<mapsto> ''text/plain;charset=UTF-8''],
          body = Some ''File not found. Check repository, branch, and file path.''\<rparr>"
  "handleGitHubError rt up401 =
     Inr \<lparr>status = 403, statusText = [],
          headers = [''content-type'' \<mapsto> ''text/plain;charset=UTF-8''],
          body = Some ''Access denied. Your token may be invalid or lack permissions.''\<rparr>"
  "handleGitHubError rt up503 =
     Inr \<lparr>status = 503, statusText = [],
          headers = [''content-type'' \<mapsto> ''text/plain;charset=UTF-8''],
          body = Some ''GitHub API error: 503 Service Unavailable''\<rparr>"
  by (simp_all add: handleGitHubError_returns null_body_status_def text_response_def
      up404_def up401_def up503_def show_nat.simps digit_def)


section \<open>Success and failure of the upstream call\<close>

text \<open>
  C4, as stated: an upstream response with a 2xx or 3xx status is passed through with
  the rewritten headers. A 300 is not: \<^verbatim>\<open>response.ok\<close> holds for 2xx only, and the
  handlers hand every other response to \<open>handleGitHubError\<close>, which drops the upstream
  body and headers.
\<close>

theorem passthrough_counterexample:
  "status up300 = 300 \<and> body up300 = Some ''choose one''
   \<and> snd (fetch_cdn_worker workers page (answer up300) req_query env_full)
       = \<lparr>status = 300, statusText = [],
          headers = [''content-type'' \<mapsto> ''text/plain;charset=UTF-8''],
          body = Some ''GitHub API error: 300 Multiple Choices''\<rparr>
   \<and> snd (fetch_part_000 workers page (answer up300) req_query env_full)
       = \<lparr>status = 300, statusText = [],
          headers = [''content-type'' \<mapsto> ''text/plain;charset=UTF-8''],
          body = Some ''GitHub API error: 300 Multiple Choices''\<rparr>"
proof -
  have e: "handleGitHubError workers up300
             = Inr (text_response ''GitHub API error: 300 Multiple Choices'' 300)"
    by (simp add: handleGitHubError_returns null_body_status_def up300_def show_nat.simps
        digit_def)
  have n: "\<not> ok up300"
    by (simp add: ok_def up300_def)
  have o: "truthy (GITHUB_OWNER env_full)"
    by (simp add: env_full_def)
  obtain u i
    where u: "fst (fetch_cdn_worker workers page (answer up300) req_query env_full) = [(u, i)]"
    by (simp add: fetch_cdn_worker_calls sample_content sample_segments o)
  obtain v j
    where v: "fst (fetch_part_000 workers page (answer up300) req_query env_full) = [(v, j)]"
    by (simp add: fetch_part_000_calls sample_content)
  have "snd (fetch_cdn_worker workers page (answer up300) req_query env_full)
          = text_response ''GitHub API error: 300 Multiple Choices'' 300"
    using fetch_cdn_worker_answer [OF u, of up300] n e by (simp add: answer_def)
  moreover
  have "snd (fetch_part_000 workers page (answer up300) req_query env_full)
          = text_response ''GitHub API error: 300 Multiple Choices'' 300"
    using fetch_part_000_answer [OF v, of up300] n e by (simp add: answer_def)
  ultimately show ?thesis
    by (simp add: text_response_def up300_def)
qed

text \<open>
  C4, amended: once \<^verbatim>\<open>fetch\<close> has returned the upstream response, either handler passes
  status, status text and body through unchanged and applies the header rewrite exactly
  when the upstream status is 2xx. Every other response, 3xx included, is handed to the
  error mapper instead, and the handler answers with the response the mapper returns:
  for a 3xx status other than 304, the upstream status with the text that holds the
  status code and status text. If the mapper throws, the handler answers with the 500 of
  its \<^verbatim>\<open>catch\<close> block.
\<close>

theorem passthrough_only_2xx:
  assumes "handler = fetch_cdn_worker \<or> handler = fetch_part_000"
    and "fst (handler rt html net request env) = [(u, i)]"
    and "net u i = Inr r"
  shows "(200 \<le> status r \<and> status r \<le> 299 \<longrightarrow>
            snd (handler rt html net request env) =
              \<lparr>status = status r, statusText = statusText r,
               headers = applyHeaders (headers r) env, body = body r\<rparr>)
    \<and> (status r < 200 \<or> 299 < status r \<longrightarrow>
            snd (handler rt html net request env) =
              (case handleGitHubError rt r of
                 Inr e \<Rightarrow> e
               | Inl message \<Rightarrow> text_response (''Proxy request failed: '' @ message) 500))
    \<and> (300 \<le> status r \<and> status r \<le> 399 \<and> status r \<noteq> 304 \<longrightarrow>
            snd (handler rt html net request env) =
              \<lparr>status = status r, statusText = [],
               headers = [''content-type'' \<mapsto> ''text/plain;charset=UTF-8''],
               body = Some (''GitHub API error: '' @ show_nat (status r) @ '' ''
                            @ statusText r)\<rparr>)"
proof -
  have a: "snd (handler rt html net request env) =
           (if ok r then \<lparr>status = status r, statusText = statusText r,
                           headers = applyHeaders (headers r) env, body = body r\<rparr>
            else case handleGitHubError rt r of
                   Inr e \<Rightarrow> e
                 | Inl message \<Rightarrow> text_response (''Proxy request failed: '' @ message) 500)"
    using assms fetch_cdn_worker_answer [of rt html net request env u i r]
      fetch_part_000_answer [of rt html net request env u i r]
    by auto
  have "handleGitHubError rt r =
          Inr (text_response
                 (''GitHub API error: '' @ show_nat (status r) @ '' '' @ statusText r)
                 (status r))"
    if "300 \<le> status r" and "status r \<le> 399" and "status r \<noteq> 304"
    using that by (simp add: handleGitHubError_returns null_body_status_def)
  with a show ?thesis
    by (auto simp: ok_def text_response_def)
qed

theorem passthrough_only_2xx_witness:
  "snd (fetch_cdn_worker workers page (answer up200) req_query env_full) =
     \<lparr>status = 200, statusText = ''OK'', headers = applyHeaders (headers up200) env_full,
      body = Some ''PNG''\<rparr>
   \<and> snd (fetch_part_000 workers page (answer up503) req_query env_full) =
     \<lparr>status = 503, statusText = [],
      headers = [''content-type'' \<mapsto> ''text/plain;charset=UTF-8''],
      body = Some ''GitHub API error: 503 Service Unavailable''\<rparr>
   \<and> snd (fetch_part_000 workers page (answer up300) req_head env_full) =
     \<lparr>status = 300, statusText = [],
      headers = [''content-type'' \<mapsto> ''text/plain;charset=UTF-8''],
      body = Some ''GitHub API error: 300 Multiple Choices''\<rparr>"
proof -
  have o: "truthy (GITHUB_OWNER env_full)"
    by (simp add: env_full_def)
  obtain u i
    where u: "fst (fetch_cdn_worker workers page (answer up200) req_query env_full) = [(u, i)]"
    by (simp add: fetch_cdn_worker_calls sample_content sample_segments o)
  obtain v j
    where v: "fst (fetch_part_000 workers page (answer up503) req_query env_full) = [(v, j)]"
    by (simp add: fetch_part_000_calls sample_content)
  obtain w k
    where w: "fst (fetch_part_000 workers page (answer up300) req_head env_full) = [(w, k)]"
    by (simp add: fetch_part_000_calls sample_content)
  have a: "answer up200 u i = Inr up200" "answer up503 v j = Inr up503"
    "answer up300 w k = Inr up300"
    by (simp_all add: answer_def)
  have m: "handleGitHubError workers up503
             = Inr (text_response ''GitHub API error: 503 Service Unavailable'' 503)"
    "handleGitHubError workers up300
             = Inr (text_response ''GitHub API error: 300 Multiple Choices'' 300)"
    by (simp_all add: handleGitHubError_returns null_body_status_def up503_def up300_def
        show_nat.simps digit_def)
  have s: "show_nat 300 = ''300''"
    by (simp add: show_nat.simps digit_def)
  have f: "status up200 = 200" "statusText up200 = ''OK''" "body up200 = Some ''PNG''"
    "status up503 = 503" "status up300 = 300" "statusText up300 = ''Multiple Choices''"
    by (simp_all add: up200_def up503_def up300_def)
  from passthrough_only_2xx
      [of fetch_cdn_worker workers page "answer up200" req_query env_full u i up200]
    passthrough_only_2xx
      [of fetch_part_000 workers page "answer up503" req_query env_full v j up503]
    passthrough_only_2xx
      [of fetch_part_000 workers page "answer up300" req_head env_full w k up300]
    u v w a m s f
  show ?thesis
    by (simp add: text_response_def)
qed

section \<open>The upstream call\<close>

text \<open>
  C5, as stated: the one upstream request mirrors the method of the inbound request.
  It does not: the handlers call \<^verbatim>\<open>fetch(githubUrl, { headers })\<close> and name no method, so
  a HEAD request is answered from an upstream GET.
\<close>

theorem method_mirror_counterexample:
  "req_method req_head = ''HEAD''
   \<and> map (method_of \<circ> snd) (fst (fetch_cdn_worker workers page (answer up200) req_head env_full))
       = [''GET'']
   \<and> map (method_of \<circ> snd) (fst (fetch_part_000 workers page (answer up200) req_head env_full))
       = [''GET'']"
  by (simp add: fetch_cdn_worker_calls fetch_part_000_calls sample_content sample_segments
      method_of_def) (simp add: req_head_def env_full_def)

text \<open>
  C5, amended: a content-path request (in the fixed-owner variant: one that finds the
  owner configured and at least three path segments) makes exactly one call to
  \<^verbatim>\<open>fetch\<close>, to the resolved upstream address; the call is a GET whatever the inbound
  method is; and it carries \<^verbatim>\<open>Authorization: token <value>\<close> exactly when the resolved
  token is a non-empty string, and no header otherwise. Every other request makes no
  call.
\<close>

theorem one_upstream_get:
  "(content_path request \<and> truthy (GITHUB_OWNER env) \<and> 3 \<le> length (segments request) \<longrightarrow>
      map fst (fst (fetch_cdn_worker rt html net request env))
        = [''https://raw.githubusercontent.com/'' @ the (GITHUB_OWNER env) @ ''/''
             @ segments request ! 0 @ ''/'' @ segments request ! 1 @ ''/''
             @ join_slash (drop 2 (segments request))]
      \<and> map (method_of \<circ> snd) (fst (fetch_cdn_worker rt html net request env)) = [''GET'']
      \<and> map (init_headers \<circ> snd) (fst (fetch_cdn_worker rt html net request env))
          = [if truthy (getToken request env)
             then [(''Authorization'', ''token '' @ the (getToken request env))] else []])
   \<and> (\<not> (content_path request \<and> truthy (GITHUB_OWNER env) \<and> 3 \<le> length (segments request))
        \<longrightarrow> fst (fetch_cdn_worker rt html net request env) = [])
   \<and> (content_path request \<longrightarrow>
      map fst (fst (fetch_part_000 rt html net request env))
        = [''https://raw.githubusercontent.com'' @ pathname (url request)]
      \<and> map (method_of \<circ> snd) (fst (fetch_part_000 rt html net request env)) = [''GET'']
      \<and> map (init_headers \<circ> snd) (fst (fetch_part_000 rt html net request env))
          = [if truthy (getToken request env)
             then [(''Authorization'', ''token '' @ the (getToken request env))] else []])
   \<and> (\<not> content_path request \<longrightarrow> fst (fetch_part_000 rt html net request env) = [])"
  by (simp add: fetch_cdn_worker_calls fetch_part_000_calls method_of_def)

theorem one_upstream_get_witness:
  "map fst (fst (fetch_cdn_worker workers page unreachable req_head env_full))
     = [''https://raw.githubusercontent.com/octocat/site/main/img/a.png'']
   \<and> map (method_of \<circ> snd) (fst (fetch_cdn_worker workers page unreachable req_head env_full)) = [''GET'']
   \<and> map (init_headers \<circ> snd) (fst (fetch_cdn_worker workers page unreachable req_head env_full))
       = [[(''Authorization'', ''token qtok'')]]
   \<and> fst (fetch_cdn_worker workers page unreachable req_short env_full) = []
   \<and> map fst (fst (fetch_part_000 workers page unreachable req_head env_anonymous))
       = [''https://raw.githubusercontent.com/site/main/img/a.png'']
   \<and> map (init_headers \<circ> snd) (fst (fetch_part_000 workers page unreachable req_head env_anonymous))
       = [[]]
   \<and> fst (fetch_part_000 workers page unreachable req_root env_full) = []"
proof -
  have t: "getToken req_head env_full = Some ''qtok''" "getToken req_head env_anonymous = None"
    by (simp_all add: getToken_def Headers_get_def req_head_def env_full_def env_anonymous_def
        searchParams_has_def searchParams_get_def sample_url_def)
  have o: "truthy (GITHUB_OWNER env_full)" "the (GITHUB_OWNER env_full) = ''octocat''"
    by (simp_all add: env_full_def)
  have p: "pathname (url req_head) = ''/site/main/img/a.png''" "\<not> content_path req_root"
    by (simp_all add: req_head_def req_root_def sample_url_def content_path_def)
  from one_upstream_get [of req_head env_full workers page unreachable]
    one_upstream_get [of req_short env_full workers page unreachable]
    one_upstream_get [of req_head env_anonymous workers page unreachable]
    one_upstream_get [of req_root env_full workers page unreachable]
    t o p
  show ?thesis
    by (simp add: sample_content sample_segments)
qed

section \<open>The path check of the fixed-owner variant\<close>

text \<open>
  C6, as stated: in the fixed-owner variant a content-path request whose path has fewer
  than three non-empty segments is answered with 400. Two requests show otherwise. The
  path \<^verbatim>\<open>/site//\<close> has one non-empty segment, but \<^verbatim>\<open>split\<close> yields three pieces, two
  of them empty, so the request passes the check and is proxied. And without
  \<^verbatim>\<open>GITHUB_OWNER\<close> the handler answers 500 before it looks at the path.
\<close>

theorem path_check_counterexample:
  "content_path req_gaps \<and> nonempty_segments req_gaps = [''site'']
   \<and> map fst (fst (fetch_cdn_worker workers page (answer up200) req_gaps env_full))
       = [''https://raw.githubusercontent.com/octocat/site//'']
   \<and> status (snd (fetch_cdn_worker workers page (answer up200) req_gaps env_full)) = 200
   \<and> content_path req_short \<and> nonempty_segments req_short = [''site'', ''main'']
   \<and> snd (fetch_cdn_worker workers page (answer up200) req_short empty_env)
       = \<lparr>status = 500, statusText = [], headers = [''content-type'' \<mapsto> ''text/plain;charset=UTF-8''],
          body = Some ''GITHUB_OWNER environment variable not set.''\<rparr>"
proof -
  have o: "truthy (GITHUB_OWNER env_full)" "the (GITHUB_OWNER env_full) = ''octocat''"
    by (simp_all add: env_full_def)
  have c: "map fst (fst (fetch_cdn_worker workers page (answer up200) req_gaps env_full))
             = [''https://raw.githubusercontent.com/octocat/site//'']"
    by (simp add: fetch_cdn_worker_calls sample_content sample_segments o)
  then obtain u i where u: "fst (fetch_cdn_worker workers page (answer up200) req_gaps env_full) = [(u, i)]"
    by auto
  have "status (snd (fetch_cdn_worker workers page (answer up200) req_gaps env_full)) = 200"
    using fetch_cdn_worker_answer [OF u, of up200]
    by (simp add: answer_def ok_def up200_def)
  moreover
  have "snd (fetch_cdn_worker workers page (answer up200) req_short empty_env)
          = \<lparr>status = 500, statusText = [], headers = [''content-type'' \<mapsto> ''text/plain;charset=UTF-8''],
             body = Some ''GITHUB_OWNER environment variable not set.''\<rparr>"
    using sample_content(6)
    by (simp add: fetch_cdn_worker_def try_catch_def text_response_def content_path_def
        empty_env_def)
  ultimately show ?thesis
    using c by (simp add: sample_content nonempty_segments_def sample_segments)
qed

text \<open>
  C6, amended: in the fixed-owner variant, for a content-path request: without a
  configured \<^verbatim>\<open>GITHUB_OWNER\<close> the response is a 500 naming that variable; with it, the
  response is the 400 naming the path format exactly when the path, after its leading
  slashes are stripped, splits at \<^verbatim>\<open>/\<close> into fewer than three segments, empty ones
  counted, and no upstream call is made; a path with three or more segments goes on to
  the one upstream call. A path with three non-empty segments is among the latter.
\<close>

theorem path_check:
  assumes "content_path request"
  shows "(\<not> truthy (GITHUB_OWNER env) \<longrightarrow>
            fetch_cdn_worker rt html net request env =
              ([], \<lparr>status = 500, statusText = [], headers = [''content-type'' \<mapsto> ''text/plain;charset=UTF-8''],
                    body = Some ''GITHUB_OWNER environment variable not set.''\<rparr>))
    \<and> (truthy (GITHUB_OWNER env) \<and> length (segments request) < 3 \<longrightarrow>
            fetch_cdn_worker rt html net request env =
              ([], \<lparr>status = 400, statusText = [], headers = [''content-type'' \<mapsto> ''text/plain;charset=UTF-8''],
                    body = Some ''Invalid path. Format: /repo/branch/path-to-file''\<rparr>))
    \<and> (truthy (GITHUB_OWNER env) \<and> 3 \<le> length (segments request) \<longrightarrow>
            map fst (fst (fetch_cdn_worker rt html net request env))
              = [''https://raw.githubusercontent.com/'' @ the (GITHUB_OWNER env) @ ''/''
                   @ segments request ! 0 @ ''/'' @ segments request ! 1 @ ''/''
                   @ join_slash (drop 2 (segments request))])
    \<and> (3 \<le> length (nonempty_segments request) \<longrightarrow> 3 \<le> length (segments request))"
proof -
  have "length (nonempty_segments request) \<le> length (segments request)"
    by (simp add: nonempty_segments_def)
  moreover have "\<not> truthy (GITHUB_OWNER env) \<longrightarrow>
            fetch_cdn_worker rt html net request env =
              ([], \<lparr>status = 500, statusText = [], headers = [''content-type'' \<mapsto> ''text/plain;charset=UTF-8''],
                    body = Some ''GITHUB_OWNER environment variable not set.''\<rparr>)"
    using assms
    by (simp add: fetch_cdn_worker_def try_catch_def text_response_def content_path_def)
  moreover have "truthy (GITHUB_OWNER env) \<and> length (segments request) < 3 \<longrightarrow>
            fetch_cdn_worker rt html net request env =
              ([], \<lparr>status = 400, statusText = [], headers = [''content-type'' \<mapsto> ''text/plain;charset=UTF-8''],
                    body = Some ''Invalid path. Format: /repo/branch/path-to-file''\<rparr>)"
    using assms
    by (simp add: fetch_cdn_worker_def try_catch_def text_response_def content_path_def
        segments_def)
  ultimately show ?thesis
    using assms by (simp add: fetch_cdn_worker_calls)
qed

theorem path_check_witness:
  "fetch_cdn_worker workers page (answer up200) req_short env_full =
     ([], \<lparr>status = 400, statusText = [], headers = [''content-type'' \<mapsto> ''text/plain;charset=UTF-8''],
           body = Some ''Invalid path. Format: /repo/branch/path-to-file''\<rparr>)
   \<and> map fst (fst (fetch_cdn_worker workers page (answer up200) req_query env_full))
       = [''https://raw.githubusercontent.com/octocat/site/main/img/a.png'']
   \<and> status (snd (fetch_cdn_worker workers page (answer up200) req_query empty_env)) = 500"
proof -
  have o: "truthy (GITHUB_OWNER env_full)" "the (GITHUB_OWNER env_full) = ''octocat''"
    "\<not> truthy (GITHUB_OWNER empty_env)"
    by (simp_all add: env_full_def empty_env_def)
  from path_check [OF sample_content(6), of env_full workers page "answer up200"]
    path_check [OF sample_content(2), of env_full workers page "answer up200"]
    path_check [OF sample_content(2), of empty_env workers page "answer up200"] o
  show ?thesis
    by (simp add: sample_segments)
qed

section \<open>The header rewrite\<close>

lemma or_else_cases:
  "or_else v d = (if truthy v then the v else d)"
  by (cases v) (simp_all add: or_else_def)

text \<open>
  C7. On every proxied 2xx response, of either handler, \<^verbatim>\<open>Cache-Control\<close> is
  \<^verbatim>\<open>public, max-age=86400\<close> when \<^verbatim>\<open>CACHE_TIME\<close> is not configured and
  \<^verbatim>\<open>public, max-age=<CACHE_TIME>\<close> when it is; the three CORS headers and the three
  security headers have their fixed values, whatever the upstream sent under these names;
  and every other header is the upstream's, \<^verbatim>\<open>Content-Type\<close>, \<^verbatim>\<open>ETag\<close> and
  \<^verbatim>\<open>Content-Length\<close> among them. A binding is configured when it holds a non-empty
  string: \<^verbatim>\<open>env.CACHE_TIME || config.defaultCacheTime\<close> takes the default for the empty
  string as for a missing binding, the way \<^verbatim>\<open>!owner\<close> reports an empty
  \<^verbatim>\<open>GITHUB_OWNER\<close> as not set.
\<close>

theorem header_rewrite:
  assumes "handler = fetch_cdn_worker \<or> handler = fetch_part_000"
    and "fst (handler rt html net request env) = [(u, i)]"
    and "net u i = Inr r"
    and "ok r"
  shows "(\<not> truthy (CACHE_TIME env) \<longrightarrow>
            Headers_get (headers (snd (handler rt html net request env))) ''Cache-Control''
              = Some ''public, max-age=86400'')
    \<and> (truthy (CACHE_TIME env) \<longrightarrow>
            Headers_get (headers (snd (handler rt html net request env))) ''Cache-Control''
              = Some (''public, max-age='' @ the (CACHE_TIME env)))
    \<and> Headers_get (headers (snd (handler rt html net request env))) n =
           (if lower n = ''cache-control''
            then Some (''public, max-age='' @ or_else (CACHE_TIME env) ''86400'')
            else if lower n = ''access-control-allow-origin'' then Some ''*''
            else if lower n = ''access-control-allow-methods'' then Some ''GET, HEAD, OPTIONS''
            else if lower n = ''access-control-max-age'' then Some ''86400''
            else if lower n = ''x-content-type-options'' then Some ''nosniff''
            else if lower n = ''x-frame-options'' then Some ''DENY''
            else if lower n = ''referrer-policy'' then Some ''strict-origin-when-cross-origin''
            else Headers_get (headers r) n)
    \<and> (lower n \<notin> set rewritten \<longrightarrow>
          Headers_get (headers (snd (handler rt html net request env))) n
            = Headers_get (headers r) n)
    \<and> (\<forall>m \<in> {''Content-Type'', ''ETag'', ''Content-Length''}.
          Headers_get (headers (snd (handler rt html net request env))) m
            = Headers_get (headers r) m)
    \<and> status (snd (handler rt html net request env)) = status r
    \<and> body (snd (handler rt html net request env)) = body r"
proof -
  have "snd (handler rt html net request env) =
          \<lparr>status = status r, statusText = statusText r,
           headers = applyHeaders (headers r) env, body = body r\<rparr>"
    using assms fetch_cdn_worker_answer [of rt html net request env u i r]
      fetch_part_000_answer [of rt html net request env u i r]
    by auto
  then show ?thesis
    by (simp add: applyHeaders_get or_else_cases lower_names rewritten_def)
qed

theorem header_rewrite_witness:
  "Headers_get (headers (snd (fetch_cdn_worker workers page (answer up200) req_query env_full)))
     ''Cache-Control'' = Some ''public, max-age=3600''
   \<and> Headers_get (headers (snd (fetch_part_000 workers page (answer up200) req_query env_closed)))
     ''Cache-Control'' = Some ''public, max-age=86400''
   \<and> Headers_get (headers (snd (fetch_cdn_worker workers page (answer up200) req_query env_full)))
     ''X-Frame-Options'' = Some ''DENY''
   \<and> Headers_get (headers (snd (fetch_cdn_worker workers page (answer up200) req_query env_full)))
     ''Content-Type'' = Some ''image/png''
   \<and> Headers_get (headers (snd (fetch_cdn_worker workers page (answer up200) req_query env_full)))
     ''ETag'' = Some ''W/1''
   \<and> body (snd (fetch_cdn_worker workers page (answer up200) req_query env_full)) = Some ''PNG''"
proof -
  have o: "truthy (GITHUB_OWNER env_full)"
    by (simp add: env_full_def)
  obtain u i where u: "fst (fetch_cdn_worker workers page (answer up200) req_query env_full) = [(u, i)]"
    by (simp add: fetch_cdn_worker_calls sample_content sample_segments o)
  obtain v j where v: "fst (fetch_part_000 workers page (answer up200) req_query env_closed) = [(v, j)]"
    by (simp add: fetch_part_000_calls sample_content)
  have a: "answer up200 u i = Inr up200" "answer up200 v j = Inr up200" "ok up200"
    by (simp_all add: answer_def ok_def up200_def)
  have c: "CACHE_TIME env_full = Some ''3600''" "CACHE_TIME env_closed = None"
    by (simp_all add: env_full_def env_closed_def)
  have h: "Headers_get (headers up200) ''Content-Type'' = Some ''image/png''"
    "Headers_get (headers up200) ''ETag'' = Some ''W/1''" "body up200 = Some ''PNG''"
    by (simp_all add: Headers_get_def up200_def lower_names)
  from header_rewrite [of fetch_cdn_worker workers page "answer up200" req_query env_full u i up200
      "''X-Frame-Options''"]
    header_rewrite [of fetch_part_000 workers page "answer up200" req_query env_closed v j up200
      "''Cache-Control''"]
    u v a c h
  show ?thesis
    by (simp add: lower_names)
qed

section \<open>Preflight\<close>

lemma handleOptions_headers:
  "Headers_get (headers (handleOptions request)) n =
     (if lower n = ''access-control-allow-headers''
      then Some (or_else (Headers_get (req_headers request) ''Access-Control-Request-Headers'')
                         ''X-GitHub-Token, Content-Type'')
      else if lower n = ''cache-control'' then Some ''public, max-age=86400''
      else if lower n = ''access-control-allow-origin'' then Some ''*''
      else if lower n = ''access-control-allow-methods'' then Some ''GET, HEAD, OPTIONS''
      else if lower n = ''access-control-max-age'' then Some ''86400''
      else if lower n = ''x-content-type-options'' then Some ''nosniff''
      else if lower n = ''x-frame-options'' then Some ''DENY''
      else if lower n = ''referrer-policy'' then Some ''strict-origin-when-cross-origin''
      else None)"
proof -
  have "Headers_get (headers (handleOptions request)) n =
          (if lower n = ''access-control-allow-headers''
           then Some (or_else (Headers_get (req_headers request) ''Access-Control-Request-Headers'')
                              ''X-GitHub-Token, Content-Type'')
           else Headers_get (applyHeaders Map.empty empty_env) n)"
    by (simp add: handleOptions_def Let_def Headers_get_def Headers_set_def lower_names)
  then show ?thesis
    by (simp add: applyHeaders_get or_else_def empty_env_def) (simp add: Headers_get_def)
qed

text \<open>
  C8, as stated: the preflight response carries \<^verbatim>\<open>Cache-Control\<close> with the configured
  cache seconds, and echoes \<^verbatim>\<open>Access-Control-Request-Headers\<close> whenever the request has
  that header. \<open>handleOptions\<close> is not given the bindings: it calls
  \<^verbatim>\<open>applyHeaders(headers, {})\<close>, so with \<^verbatim>\<open>CACHE_TIME\<close> set to 3600 the preflight
  response still says 86400. And a request header that is present with the empty value
  is answered with the fixed default, since \<^verbatim>\<open>||\<close> takes the default for the empty
  string.
\<close>

theorem preflight_counterexample:
  "CACHE_TIME env_full = Some ''3600''
   \<and> Headers_get (headers (snd (fetch_cdn_worker workers page (answer up200) req_options env_full)))
       ''Cache-Control'' = Some ''public, max-age=86400''
   \<and> Headers_get (req_headers req_options_blank) ''Access-Control-Request-Headers'' = Some []
   \<and> Headers_get (headers (snd (fetch_cdn_worker workers page (answer up200) req_options_blank env_full)))
       ''Access-Control-Allow-Headers'' = Some ''X-GitHub-Token, Content-Type''"
proof -
  have "snd (fetch_cdn_worker workers page (answer up200) req_options env_full) = handleOptions req_options"
    "snd (fetch_cdn_worker workers page (answer up200) req_options_blank env_full)
       = handleOptions req_options_blank"
    by (simp_all add: fetch_cdn_worker_def req_options_def req_options_blank_def)
  moreover
  have "Headers_get (req_headers req_options_blank) ''Access-Control-Request-Headers'' = Some []"
    by (simp add: Headers_get_def req_options_blank_def lower_names)
  ultimately show ?thesis
    by (simp add: handleOptions_headers lower_names or_else_def env_full_def)
qed

text \<open>
  C8, amended: every OPTIONS request, whatever its path, is answered by either handler
  without an upstream call, with status 200 and no body. The response carries the seven
  headers of the header rewriter with \<^verbatim>\<open>Cache-Control: public, max-age=86400\<close>, the
  default, whatever \<^verbatim>\<open>CACHE_TIME\<close> is configured; it carries
  \<^verbatim>\<open>Access-Control-Allow-Headers\<close> equal to the request's
  \<^verbatim>\<open>Access-Control-Request-Headers\<close> value when that is present and non-empty, and the
  fixed default \<^verbatim>\<open>X-GitHub-Token, Content-Type\<close> otherwise; and it carries nothing else.
\<close>

theorem preflight:
  assumes "handler = fetch_cdn_worker \<or> handler = fetch_part_000"
    and "req_method request = ''OPTIONS''"
  shows "fst (handler rt html net request env) = []
    \<and> status (snd (handler rt html net request env)) = 200
    \<and> body (snd (handler rt html net request env)) = None
    \<and> Headers_get (headers (snd (handler rt html net request env))) n =
        (if lower n = ''access-control-allow-headers''
         then Some (if truthy (Headers_get (req_headers request) ''Access-Control-Request-Headers'')
                    then the (Headers_get (req_headers request) ''Access-Control-Request-Headers'')
                    else ''X-GitHub-Token, Content-Type'')
         else if lower n = ''cache-control'' then Some ''public, max-age=86400''
         else if lower n = ''access-control-allow-origin'' then Some ''*''
         else if lower n = ''access-control-allow-methods'' then Some ''GET, HEAD, OPTIONS''
         else if lower n = ''access-control-max-age'' then Some ''86400''
         else if lower n = ''x-content-type-options'' then Some ''nosniff''
         else if lower n = ''x-frame-options'' then Some ''DENY''
         else if lower n = ''referrer-policy'' then Some ''strict-origin-when-cross-origin''
         else None)"
proof -
  have "handler rt html net request env = ([], handleOptions request)"
    using assms by (auto simp: fetch_cdn_worker_def fetch_part_000_def)
  moreover have "status (handleOptions request) = 200" "body (handleOptions request) = None"
    by (simp_all add: handleOptions_def Let_def)
  ultimately show ?thesis
    by (simp add: handleOptions_headers or_else_cases)
qed

theorem preflight_witness:
  "fst (fetch_cdn_worker workers page unreachable req_options env_full) = []
   \<and> status (snd (fetch_cdn_worker workers page unreachable req_options env_full)) = 200
   \<and> body (snd (fetch_cdn_worker workers page unreachable req_options env_full)) = None
   \<and> Headers_get (headers (snd (fetch_cdn_worker workers page unreachable req_options env_full)))
       ''Access-Control-Allow-Headers'' = Some ''X-GitHub-Token''
   \<and> Headers_get (headers (snd (fetch_part_000 workers page unreachable req_options env_full)))
       ''Cache-Control'' = Some ''public, max-age=86400''"
proof -
  have m: "req_method req_options = ''OPTIONS''"
    by (simp add: req_options_def)
  have h: "Headers_get (req_headers req_options) ''Access-Control-Request-Headers''
             = Some ''X-GitHub-Token''"
    by (simp add: Headers_get_def req_options_def lower_names)
  from preflight [of fetch_cdn_worker req_options workers page unreachable env_full
      "''Access-Control-Allow-Headers''"]
    preflight [of fetch_part_000 req_options workers page unreachable env_full "''Cache-Control''"]
    m h
  show ?thesis
    by (simp add: lower_names)
qed

section \<open>Security headers\<close>

lemma generateLandingPage_headers:
  "Headers_get (headers (generateLandingPage html u)) n =
     (if lower n = ''cache-control'' then Some ''public, max-age=86400''
      else if lower n = ''content-type'' then Some ''text/html;charset=UTF-8''
      else None)"
  by (simp add: generateLandingPage_def Headers_get_def Headers_set_def lower_names
      show_nat_defaultCacheTime)

text \<open>
  C9, as stated: every response with a success status, the landing page included,
  carries the three security headers. The landing page does not:
  \<open>generateLandingPage\<close> builds its response with \<^verbatim>\<open>Content-Type\<close> and
  \<^verbatim>\<open>Cache-Control\<close> only and \<open>applyHeaders\<close> is not called on it.
\<close>

theorem security_headers_counterexample:
  "status (snd (fetch_cdn_worker workers page unreachable req_root env_full)) = 200
   \<and> Headers_get (headers (snd (fetch_cdn_worker workers page unreachable req_root env_full)))
       ''X-Content-Type-Options'' = None
   \<and> Headers_get (headers (snd (fetch_cdn_worker workers page unreachable req_root env_full)))
       ''X-Frame-Options'' = None
   \<and> Headers_get (headers (snd (fetch_cdn_worker workers page unreachable req_root env_full)))
       ''Referrer-Policy'' = None
   \<and> status (snd (fetch_part_000 workers page unreachable req_root env_full)) = 200
   \<and> Headers_get (headers (snd (fetch_part_000 workers page unreachable req_root env_full)))
       ''X-Frame-Options'' = None"
proof -
  have "snd (fetch_cdn_worker workers page unreachable req_root env_full)
          = generateLandingPage page (url req_root)"
    "snd (fetch_part_000 workers page unreachable req_root env_full)
          = generateLandingPage page (url req_root)"
    by (simp_all add: fetch_cdn_worker_def fetch_part_000_def req_root_def sample_url_def)
  moreover have "status (generateLandingPage page (url req_root)) = 200"
    by (simp add: generateLandingPage_def)
  ultimately show ?thesis
    by (simp add: generateLandingPage_headers lower_names)
qed

text \<open>
  C9, amended: every preflight response, and every response to a content-path request
  that has a success status, carries \<^verbatim>\<open>X-Content-Type-Options: nosniff\<close>,
  \<^verbatim>\<open>X-Frame-Options: DENY\<close> and
  \<^verbatim>\<open>Referrer-Policy: strict-origin-when-cross-origin\<close>. The landing page served for the
  root path has status 200 and carries \<^verbatim>\<open>Content-Type\<close> and \<^verbatim>\<open>Cache-Control\<close> only.
\<close>

theorem security_headers:
  assumes "handler = fetch_cdn_worker \<or> handler = fetch_part_000"
  shows "(req_method request = ''OPTIONS''
           \<or> content_path request \<and> ok (snd (handler rt html net request env)) \<longrightarrow>
            Headers_get (headers (snd (handler rt html net request env))) ''X-Content-Type-Options''
              = Some ''nosniff''
            \<and> Headers_get (headers (snd (handler rt html net request env))) ''X-Frame-Options''
              = Some ''DENY''
            \<and> Headers_get (headers (snd (handler rt html net request env))) ''Referrer-Policy''
              = Some ''strict-origin-when-cross-origin'')
    \<and> (req_method request \<noteq> ''OPTIONS'' \<and> \<not> content_path request \<longrightarrow>
            status (snd (handler rt html net request env)) = 200
            \<and> Headers_get (headers (snd (handler rt html net request env))) n =
                (if lower n = ''cache-control'' then Some ''public, max-age=86400''
                 else if lower n = ''content-type'' then Some ''text/html;charset=UTF-8''
                 else None))"
proof -
  let ?resp = "snd (handler rt html net request env)"
  let ?three = "Headers_get (headers ?resp) ''X-Content-Type-Options'' = Some ''nosniff''
            \<and> Headers_get (headers ?resp) ''X-Frame-Options'' = Some ''DENY''
            \<and> Headers_get (headers ?resp) ''Referrer-Policy''
              = Some ''strict-origin-when-cross-origin''"
  have pre: ?three if "req_method request = ''OPTIONS''"
  proof -
    have "?resp = handleOptions request"
      using assms that by (auto simp: fetch_cdn_worker_def fetch_part_000_def)
    then show ?thesis
      by (simp add: handleOptions_headers lower_names)
  qed
  have prox: ?three if c: "content_path request" and k: "ok ?resp"
  proof -
    have calls: "fst (handler rt html net request env) = []
                 \<or> (\<exists>u i. fst (handler rt html net request env) = [(u, i)])"
      using assms by (auto simp: fetch_cdn_worker_calls fetch_part_000_calls)
    have none: False if "fst (handler rt html net request env) = []"
      using assms that c k
      by (auto simp: fetch_cdn_worker_def fetch_part_000_def try_catch_def text_response_def
          content_path_def Let_def ok_def split: if_splits sum.splits)
    then obtain u i where u: "fst (handler rt html net request env) = [(u, i)]"
      using calls by blast
    show ?thesis
    proof (cases "net u i")
      case (Inl message)
      then have "status ?resp = 500"
        using assms u
        by (auto simp: fetch_cdn_worker_def fetch_part_000_def try_catch_def text_response_def
            Let_def split: if_splits sum.splits)
      with k show ?thesis by (simp add: ok_def)
    next
      case (Inr r)
      then have a: "?resp = (if ok r then \<lparr>status = status r, statusText = statusText r,
                           headers = applyHeaders (headers r) env, body = body r\<rparr>
                         else case handleGitHubError rt r of
                                Inr e \<Rightarrow> e
                              | Inl message \<Rightarrow>
                                  text_response (''Proxy request failed: '' @ message) 500)"
        using assms u fetch_cdn_worker_answer [of rt html net request env u i r]
          fetch_part_000_answer [of rt html net request env u i r]
        by auto
      show ?thesis
      proof (cases "ok r")
        case True
        with a show ?thesis
          by (simp add: applyHeaders_get lower_names)
      next
        case False
        have "\<not> ok ?resp"
        proof (cases "handleGitHubError rt r")
          case (Inl message)
          with a False show ?thesis
            by (simp add: text_response_def ok_def)
        next
          case (Inr e)
          with a False handleGitHubError_not_ok [of r rt e] show ?thesis
            by simp
        qed
        with k show ?thesis
          by simp
      qed
    qed
  qed
  have land: "status ?resp = 200
            \<and> Headers_get (headers ?resp) n =
                (if lower n = ''cache-control'' then Some ''public, max-age=86400''
                 else if lower n = ''content-type'' then Some ''text/html;charset=UTF-8''
                 else None)"
    if "req_method request \<noteq> ''OPTIONS''" and "\<not> content_path request"
  proof -
    have "?resp = generateLandingPage html (url request)"
      using assms that by (auto simp: fetch_cdn_worker_def fetch_part_000_def content_path_def)
    moreover have "status (generateLandingPage html (url request)) = 200"
      by (simp add: generateLandingPage_def)
    ultimately show ?thesis
      by (simp add: generateLandingPage_headers)
  qed
  from pre prox land show ?thesis
    by blast
qed

theorem security_headers_witness:
  "Headers_get (headers (snd (fetch_cdn_worker workers page (answer up200) req_query env_full)))
     ''X-Frame-Options'' = Some ''DENY''
   \<and> Headers_get (headers (snd (fetch_part_000 workers page unreachable req_options env_full)))
     ''Referrer-Policy'' = Some ''strict-origin-when-cross-origin''
   \<and> Headers_get (headers (snd (fetch_part_000 workers page unreachable req_root env_full)))
     ''Content-Type'' = Some ''text/html;charset=UTF-8''"
proof -
  have o: "truthy (GITHUB_OWNER env_full)"
    by (simp add: env_full_def)
  obtain u i where u: "fst (fetch_cdn_worker workers page (answer up200) req_query env_full) = [(u, i)]"
    by (simp add: fetch_cdn_worker_calls sample_content sample_segments o)
  have "ok (snd (fetch_cdn_worker workers page (answer up200) req_query env_full))"
    using fetch_cdn_worker_answer [OF u, of up200]
    by (simp add: answer_def ok_def up200_def)
  moreover have "req_method req_options = ''OPTIONS''" "req_method req_root \<noteq> ''OPTIONS''"
    "\<not> content_path req_root"
    by (simp_all add: req_options_def req_root_def content_path_def sample_url_def)
  ultimately show ?thesis
    using security_headers [of fetch_cdn_worker req_query workers page "answer up200" env_full]
      security_headers [of fetch_part_000 req_options workers page unreachable env_full]
      security_headers [of fetch_part_000 req_root workers page unreachable env_full "''Content-Type''"]
      sample_content(2)
    by (simp add: lower_names)
qed

end
